theory Spec2Isabelle
  imports Complex_Main
begin

section \<open>Data model\<close>

text \<open>
  The collector \<^verbatim>\<open>dummy_collector.py\<close> reads JSON files, extracts one field of each,
  aggregates the numeric values and writes \<^verbatim>\<open>metrics.json\<close> and \<^verbatim>\<open>cli.txt\<close>.

  Python dictionaries keep insertion order, so a dictionary is an association list whose keys
  are kept distinct by \<open>dict_set\<close>. Python values that come out of \<^verbatim>\<open>json.load\<close> or go into
  \<^verbatim>\<open>json.dump\<close> are values of the type \<open>json\<close>.

  A Python \<^verbatim>\<open>float\<close> is a double: a finite one is given by the rational number it denotes,
  and minus zero, the two infinities and NaN are values of their own. Comparison of doubles is
  exact and is defined here. Every operation that rounds (\<^verbatim>\<open>sum\<close>, \<^verbatim>\<open>statistics.mean\<close>,
  \<^verbatim>\<open>float\<close> on a string or on a large integer) is a library routine whose result is taken
  from the environment, not computed.
\<close>

type_synonym 'v dict = "(string \<times> 'v) list"

datatype pyfloat =
    Finite rat
  | NegZero
  | PosInf
  | NegInf
  | NaN

text \<open>
  \<^verbatim>\<open>a < b\<close> on floats: false when either side is NaN, and minus zero compares as zero.
\<close>

fun flt_less :: "pyfloat \<Rightarrow> pyfloat \<Rightarrow> bool" where
  "flt_less NaN b = False"
| "flt_less a NaN = False"
| "flt_less a NegInf = False"
| "flt_less NegInf b = True"
| "flt_less PosInf b = False"
| "flt_less a PosInf = True"
| "flt_less NegZero NegZero = False"
| "flt_less NegZero (Finite r) = (0 < r)"
| "flt_less (Finite r) NegZero = (r < 0)"
| "flt_less (Finite r) (Finite s) = (r < s)"

datatype json =
    JNull
  | JBool bool
  | JInt int
  | JFloat pyfloat
  | JStr string
  | JArr "json list"
  | JObj "(string \<times> json) list"

text \<open>The exceptions that the program or the library calls it makes can raise.\<close>

datatype pyerr =
    SystemExit string
  | TypeError
  | ValueError
  | OverflowError
  | StatisticsError
  | JSONDecodeError
  | OSError

text \<open>\<^verbatim>\<open>d[k] = v\<close>: an existing key keeps its position, a new key goes to the end.\<close>

fun dict_set :: "'v dict \<Rightarrow> string \<Rightarrow> 'v \<Rightarrow> 'v dict" where
  "dict_set [] k v = [(k, v)]"
| "dict_set ((k', v') # d) k v =
     (if k' = k then (k', v) # d else (k', v') # dict_set d k v)"

text \<open>\<^verbatim>\<open>d[k].append(x)\<close> for a key that is present.\<close>

fun dict_append :: "'v list dict \<Rightarrow> string \<Rightarrow> 'v \<Rightarrow> 'v list dict" where
  "dict_append [] k x = []"
| "dict_append ((k', vs) # d) k x =
     (if k' = k then (k', vs @ [x]) # d else (k', vs) # dict_append d k x)"

definition dict_keys :: "'v dict \<Rightarrow> string list" where
  "dict_keys d = map fst d"

text \<open>\<^verbatim>\<open>{**d, **e}\<close>: the items of \<open>e\<close> are set into \<open>d\<close> in order.\<close>

definition dict_update :: "'v dict \<Rightarrow> 'v dict \<Rightarrow> 'v dict" where
  "dict_update d e = foldl (\<lambda>acc (k, v). dict_set acc k v) d e"

section \<open>Argument parser\<close>

definition startswith :: "string \<Rightarrow> string \<Rightarrow> bool" where
  "startswith s p = (take (length p) s = p)"

text \<open>
  The loop of \<open>parse_dynamic_args\<close>, with its two variables \<^verbatim>\<open>grouped_args\<close> and
  \<^verbatim>\<open>current_flag\<close> (\<open>None\<close> before the first flag). A token that starts with two dashes
  opens a group and sets its value list to the empty list; any other token is appended to
  the current group, or to the positional group when no flag is current.
\<close>

fun group_loop :: "string list \<Rightarrow> string list dict \<Rightarrow> string option \<Rightarrow> string list dict" where
  "group_loop [] grouped_args current_flag = grouped_args"
| "group_loop (arg # rest) grouped_args current_flag =
     (if startswith arg ''--'' then
        group_loop rest (dict_set grouped_args arg []) (Some arg)
      else if (case current_flag of None \<Rightarrow> False | Some f \<Rightarrow> f \<noteq> []) then
        group_loop rest
          (case current_flag of None \<Rightarrow> grouped_args
           | Some f \<Rightarrow> dict_append grouped_args f arg) current_flag
      else
        group_loop rest
          (dict_append
             (if ''__positional__'' \<notin> set (dict_keys grouped_args)
              then dict_set grouped_args ''__positional__'' [] else grouped_args)
             ''__positional__'' arg)
          current_flag)"

definition parse_dynamic_args :: "string list \<Rightarrow> string list dict" where
  "parse_dynamic_args argv = group_loop argv [] None"

record args =
  input_pattern :: string
  output_dir :: "string option"
  metric_key :: string
  aggregation :: string
  debug :: bool
  prefix :: string
  collector :: "string option"
  extra :: "string list"
  name :: "string option"
  dynamic_args :: "string list dict"

definition default_args :: args where
  "default_args =
     \<lparr> input_pattern = ''**/*_data.json'', output_dir = None, metric_key = ''result'',
       aggregation = ''all'', debug = False, prefix = '''', collector = None, extra = [],
       name = None, dynamic_args = [] \<rparr>"

text \<open>
  Line 80 of the source: \<^verbatim>\<open>flag_name = flag.lstrip("-").replace("-", "_")\<close>. The source
  computes this name in every iteration and uses it nowhere.
\<close>

definition flag_name :: "string \<Rightarrow> string" where
  "flag_name flag =
     map (\<lambda>c. if c = CHR ''-'' then CHR ''_'' else c) (dropWhile (\<lambda>c. c = CHR ''-'') flag)"

text \<open>\<^verbatim>\<open>values[0] if values else dflt\<close>\<close>

definition first_or :: "'a list \<Rightarrow> 'b \<Rightarrow> ('a \<Rightarrow> 'b) \<Rightarrow> 'b" where
  "first_or vals dflt f = (case vals of [] \<Rightarrow> dflt | v # _ \<Rightarrow> f v)"

text \<open>One iteration of the loop over the grouped arguments (lines 79 to 104).\<close>

definition process_flag :: "args \<Rightarrow> string \<times> string list \<Rightarrow> args" where
  "process_flag a fv =
     (let flag = fst fv; vals = snd fv in
      if flag = ''--input-pattern'' then
        a\<lparr>input_pattern := first_or vals (input_pattern a) (\<lambda>v. v)\<rparr>
      else if flag = ''--output_dir'' then
        a\<lparr>output_dir := first_or vals None Some\<rparr>
      else if flag = ''--metric-key'' then
        a\<lparr>metric_key := first_or vals (metric_key a) (\<lambda>v. v)\<rparr>
      else if flag = ''--aggregation'' then
        (if first_or vals False (\<lambda>v. v \<in> set [''avg'', ''max'', ''min'', ''sum'', ''all''])
         then a\<lparr>aggregation := first_or vals (aggregation a) (\<lambda>v. v)\<rparr> else a)
      else if flag = ''--debug'' then
        a\<lparr>debug := True\<rparr>
      else if flag = ''--prefix'' then
        a\<lparr>prefix := first_or vals '''' (\<lambda>v. v)\<rparr>
      else if flag = ''--collector'' then
        a\<lparr>collector := first_or vals None Some\<rparr>
      else if flag = ''--extra'' then
        a\<lparr>extra := extra a @ vals\<rparr>
      else if flag = ''--name'' then
        a\<lparr>name := first_or vals None Some\<rparr>
      else
        a\<lparr>dynamic_args := dict_set (dynamic_args a) flag vals\<rparr>)"

text \<open>
  \<open>parse_args\<close> on the argument vector without the script name. \<^verbatim>\<open>not args.output_dir\<close>
  holds for \<open>None\<close> and for the empty string.
\<close>

definition parse_args :: "string list \<Rightarrow> pyerr + args" where
  "parse_args raw_args =
     (let a = foldl process_flag default_args (parse_dynamic_args raw_args) in
      if (case output_dir a of None \<Rightarrow> True | Some d \<Rightarrow> d = [])
      then Inl (SystemExit ''Error: --output_dir is required'')
      else Inr a)"

section \<open>Environment, file discovery and record extraction\<close>

text \<open>
  What the program reads from outside: the paths \<^verbatim>\<open>glob.glob\<close> returns for a pattern, which
  of them are regular files, what \<^verbatim>\<open>open\<close> and \<^verbatim>\<open>json.load\<close> give for a path (an exception
  or the parsed value) and the working directory. A path is the string that
  \<^verbatim>\<open>str(Path(...))\<close> gives.

  It also holds the results of the library routines that round to a double: the built-in
  \<^verbatim>\<open>float\<close> on a string (\<open>None\<close> when it raises \<^verbatim>\<open>ValueError\<close>) and on an integer
  beyond \<open>2^53\<close>, \<^verbatim>\<open>statistics.mean\<close> and \<^verbatim>\<open>sum\<close> on a non-empty list of floats. Nothing is
  assumed about these four functions.
\<close>

record env =
  glob_matches :: "string \<Rightarrow> string list"
  is_file :: "string \<Rightarrow> bool"
  load_json :: "string \<Rightarrow> pyerr + json"
  cwd :: string
  float_of_str :: "string \<Rightarrow> pyfloat option"
  float_of_int :: "int \<Rightarrow> pyfloat"
  mean_of :: "pyfloat list \<Rightarrow> pyfloat"
  sum_of :: "pyfloat list \<Rightarrow> pyfloat"

definition find_data_files :: "env \<Rightarrow> string \<Rightarrow> string list" where
  "find_data_files E pattern = filter (is_file E) (glob_matches E pattern)"

text \<open>
  \<open>load_result_from_file\<close>. Every exception is caught and gives \<^verbatim>\<open>"NA"\<close>. When the parsed
  value is not an object, the membership tests and the subscripts of the source either raise
  \<^verbatim>\<open>TypeError\<close> (caught) or reach the last \<^verbatim>\<open>return "NA"\<close>, so the result is \<^verbatim>\<open>"NA"\<close> too.
\<close>

definition load_result_from_file :: "env \<Rightarrow> string \<Rightarrow> string \<Rightarrow> json" where
  "load_result_from_file E file_path key =
     (case load_json E file_path of
        Inl e \<Rightarrow> JStr ''NA''
      | Inr data \<Rightarrow>
          (case data of
             JObj d \<Rightarrow>
               (if (case map_of d ''error'' of None \<Rightarrow> False | Some e \<Rightarrow> e \<noteq> JNull)
                then JStr ''NA''
                else (case map_of d key of Some v \<Rightarrow> v | None \<Rightarrow> JStr ''NA''))
           | _ \<Rightarrow> JStr ''NA''))"

text \<open>
  The built-in \<^verbatim>\<open>float\<close> on a value that came out of \<^verbatim>\<open>json.load\<close>. An integer of
  magnitude \<open>2^1024 - 2^970\<close> or more does not fit a double and raises \<^verbatim>\<open>OverflowError\<close>;
  an integer of magnitude up to \<open>2^53\<close> is a double as it is; one in between is rounded.
\<close>

fun py_float :: "env \<Rightarrow> json \<Rightarrow> pyerr + pyfloat" where
  "py_float E JNull = Inl TypeError"
| "py_float E (JBool b) = Inr (Finite (if b then 1 else 0))"
| "py_float E (JInt i) =
     (if 2 ^ 1024 - 2 ^ 970 \<le> \<bar>i\<bar> then Inl OverflowError
      else if \<bar>i\<bar> \<le> 2 ^ 53 then Inr (Finite (of_int i))
      else Inr (float_of_int E i))"
| "py_float E (JFloat x) = Inr x"
| "py_float E (JStr s) = (case float_of_str E s of None \<Rightarrow> Inl ValueError | Some x \<Rightarrow> Inr x)"
| "py_float E (JArr xs) = Inl TypeError"
| "py_float E (JObj d) = Inl TypeError"

text \<open>
  The body of the extraction loop of \<open>main\<close> (lines 274 to 289) on the pair
  \<^verbatim>\<open>(values, file_info)\<close>. Only \<^verbatim>\<open>ValueError\<close> and \<^verbatim>\<open>TypeError\<close> are caught.
\<close>

definition extract_step ::
  "env \<Rightarrow> string \<Rightarrow> string \<Rightarrow> pyfloat list \<times> json list \<Rightarrow>
     pyerr + (pyfloat list \<times> json list)" where
  "extract_step E key file_path acc =
     (let v = load_result_from_file E file_path key in
      if v \<noteq> JStr ''NA'' then
        (case py_float E v of
           Inr numeric_value \<Rightarrow>
             Inr (fst acc @ [numeric_value],
                  snd acc @ [JObj [(''file'', JStr file_path), (''value'', JFloat numeric_value)]])
         | Inl e \<Rightarrow>
             (if e = ValueError \<or> e = TypeError then
                Inr (fst acc,
                     snd acc @ [JObj [(''file'', JStr file_path), (''value'', JStr ''NA''),
                                      (''error'', JStr ''non-numeric'')]])
              else Inl e))
      else
        Inr (fst acc, snd acc @ [JObj [(''file'', JStr file_path), (''value'', JStr ''NA'')]]))"

fun extract_loop ::
  "env \<Rightarrow> string \<Rightarrow> string list \<Rightarrow> pyfloat list \<times> json list \<Rightarrow>
     pyerr + (pyfloat list \<times> json list)" where
  "extract_loop E key [] acc = Inr acc"
| "extract_loop E key (f # fs) acc =
     (case extract_step E key f acc of
        Inl e \<Rightarrow> Inl e
      | Inr acc' \<Rightarrow> extract_loop E key fs acc')"

section \<open>Aggregator\<close>

text \<open>
  \<^verbatim>\<open>statistics.mean\<close> raises on an empty list; on a non-empty list of floats it returns a
  float, the one the environment gives. \<^verbatim>\<open>sum\<close> on a non-empty list of floats returns the
  float the environment gives (\<open>aggregate_results\<close> calls neither on an empty list).
\<close>

definition py_mean :: "env \<Rightarrow> pyfloat list \<Rightarrow> pyerr + pyfloat" where
  "py_mean E xs = (if xs = [] then Inl StatisticsError else Inr (mean_of E xs))"

definition py_sum :: "env \<Rightarrow> pyfloat list \<Rightarrow> pyfloat" where
  "py_sum E xs = sum_of E xs"

text \<open>
  \<^verbatim>\<open>max\<close> and \<^verbatim>\<open>min\<close> raise on an empty list. Otherwise they start from the first item and
  go through the rest, replacing the candidate by an item that compares greater (for
  \<^verbatim>\<open>min\<close>: less) than it, so that the first of several equal candidates is kept.
\<close>

fun py_max :: "pyfloat list \<Rightarrow> pyerr + pyfloat" where
  "py_max [] = Inl ValueError"
| "py_max (x # xs) = Inr (foldl (\<lambda>m v. if flt_less m v then v else m) x xs)"

fun py_min :: "pyfloat list \<Rightarrow> pyerr + pyfloat" where
  "py_min [] = Inl ValueError"
| "py_min (x # xs) = Inr (foldl (\<lambda>m v. if flt_less v m then v else m) x xs)"

text \<open>\<^verbatim>\<open>if cond: result[k] = f(values)\<close>, with the exception of \<open>f\<close> passed on.\<close>

definition set_stat ::
  "bool \<Rightarrow> string \<Rightarrow> pyerr + pyfloat \<Rightarrow> pyerr + json dict \<Rightarrow> pyerr + json dict" where
  "set_stat cond k stat res =
     (case res of
        Inl e \<Rightarrow> Inl e
      | Inr result \<Rightarrow>
          (if cond then
             (case stat of Inl e \<Rightarrow> Inl e | Inr x \<Rightarrow> Inr (dict_set result k (JFloat x)))
           else Inr result))"

definition aggregate_results :: "env \<Rightarrow> pyfloat list \<Rightarrow> string \<Rightarrow> pyerr + json dict" where
  "aggregate_results E vals agg =
     (if vals = [] then Inr [(''error'', JStr ''No valid values found'')]
      else
        (case
           set_stat (agg = ''all'' \<or> agg = ''sum'') ''sum'' (Inr (py_sum E vals))
             (set_stat (agg = ''all'' \<or> agg = ''min'') ''min'' (py_min vals)
               (set_stat (agg = ''all'' \<or> agg = ''max'') ''max'' (py_max vals)
                 (set_stat (agg = ''all'' \<or> agg = ''avg'') ''avg'' (py_mean E vals)
                   (Inr []))))
         of
           Inl e \<Rightarrow> Inl e
         | Inr result \<Rightarrow>
             Inr (dict_set (dict_set result ''count'' (JInt (int (length vals))))
                    ''values'' (JArr (map JFloat vals)))))"

section \<open>Result writer and the run\<close>

text \<open>
  The effects of a run, in order: the output directory is created, \<^verbatim>\<open>cli.txt\<close> is written
  into it (its text is rendered from the argument vector, the parsed arguments and the
  environment; the model records those), and a JSON document is written into it under a file
  name. The file system is taken to accept every write.
\<close>

datatype effect =
    Mkdir string
  | WriteCli string "string list" args
  | WriteJson string string json

definition unprefixed_keys :: "string list" where
  "unprefixed_keys = [''files_details'', ''input_pattern'', ''metric_key'', ''aggregation_type'']"

text \<open>The loop of lines 306 to 317, which fills \<^verbatim>\<open>prefixed_result\<close> from \<^verbatim>\<open>result.items()\<close>.\<close>

definition add_prefix :: "string \<Rightarrow> json dict \<Rightarrow> json dict" where
  "add_prefix p result =
     foldl (\<lambda>prefixed_result (k, v).
              if k \<notin> set unprefixed_keys
              then dict_set prefixed_result (p @ ''_'' @ k) v
              else dict_set prefixed_result k v) [] result"

text \<open>The dictionary literal of lines 295 to 302.\<close>

definition merge_result :: "args \<Rightarrow> json list \<Rightarrow> json dict \<Rightarrow> json dict" where
  "merge_result a file_info aggregated =
     dict_update
       [(''aggregation_type'', JStr (aggregation a)),
        (''metric_key'', JStr (metric_key a)),
        (''input_pattern'', JStr (input_pattern a)),
        (''files_processed'', JInt (int (length file_info))),
        (''files_details'', JArr file_info)]
       aggregated"

definition final_result :: "args \<Rightarrow> json dict \<Rightarrow> json dict" where
  "final_result a result = (if prefix a \<noteq> [] then add_prefix (prefix a) result else result)"

text \<open>
  \<open>main\<close>: the value it returns or the exception that leaves it, and the effects it had.
\<close>

definition main :: "env \<Rightarrow> string list \<Rightarrow> (pyerr + int) \<times> effect list" where
  "main E argv =
     (case parse_args argv of
        Inl e \<Rightarrow> (Inl e, [])
      | Inr a \<Rightarrow>
          (case output_dir a of
             None \<Rightarrow> (Inl TypeError, [])
           | Some out \<Rightarrow>
               (let fx = [Mkdir out, WriteCli out argv a];
                    data_files = find_data_files E (input_pattern a) in
                if data_files = [] then
                  (Inr 1,
                   fx @ [WriteJson out ''metrics.json''
                          (JObj [(''error'', JStr (''No data files found with pattern: '' @ input_pattern a)),
                                 (''pattern_used'', JStr (input_pattern a)),
                                 (''search_directory'', JStr (cwd E))])])
                else
                  (case extract_loop E (metric_key a) data_files ([], []) of
                     Inl e \<Rightarrow> (Inl e, fx)
                   | Inr (vals, file_info) \<Rightarrow>
                       (case aggregate_results E vals (aggregation a) of
                          Inl e \<Rightarrow> (Inl e, fx)
                        | Inr aggregated \<Rightarrow>
                            (Inr 0,
                             fx @ [WriteJson out ''metrics.json''
                                    (JObj (final_result a (merge_result a file_info aggregated)))]))))))"

text \<open>
  The last line of the script, \<^verbatim>\<open>sys.exit(main())\<close>: the exit status of the process. An
  exception that leaves \<open>main\<close>, \<^verbatim>\<open>SystemExit\<close> with a message included, ends the process with
  status 1.
\<close>

definition exit_status :: "pyerr + int \<Rightarrow> int" where
  "exit_status r = (case r of Inl e \<Rightarrow> 1 | Inr n \<Rightarrow> n)"

text \<open>The document last written under a file name of a directory, if any.\<close>

fun written_json :: "effect list \<Rightarrow> string \<Rightarrow> string \<Rightarrow> json option" where
  "written_json [] dir fname = None"
| "written_json (e # es) dir fname =
     (case written_json es dir fname of
        Some j \<Rightarrow> Some j
      | None \<Rightarrow> (case e of WriteJson d n j \<Rightarrow> (if d = dir \<and> n = fname then Some j else None)
                | _ \<Rightarrow> None))"

section \<open>The renaming the specification describes\<close>

text \<open>
  The key renaming in the words of the specification: the four metadata keys stay as they
  are, every other key \<open>k\<close> becomes \<open>p_k\<close>. The source does not define this function; its
  loop \<open>add_prefix\<close> is compared with it below.
\<close>

definition rename_key :: "string \<Rightarrow> string \<Rightarrow> string" where
  "rename_key p k =
     (if k \<in> {''files_details'', ''input_pattern'', ''metric_key'', ''aggregation_type''}
      then k else p @ ''_'' @ k)"

text \<open>Every key that the merged result of \<open>main\<close> can hold.\<close>

definition result_keys :: "string list" where
  "result_keys =
     [''aggregation_type'', ''metric_key'', ''input_pattern'', ''files_processed'',
      ''files_details'', ''avg'', ''max'', ''min'', ''sum'', ''count'', ''values'', ''error'']"

section \<open>A sample environment\<close>

text \<open>
  A directory of input files for concrete runs: a file with a value, a file with a value and
  an upstream error, a file without the metric key, a file whose metric is \<^verbatim>\<open>null\<close>, a file
  whose metric is the string \<^verbatim>\<open>"NA"\<close>, a file that is not JSON, and a file whose metric is a
  numeric string. Every other path cannot be opened.
\<close>

definition sample_files :: "string \<Rightarrow> pyerr + json" where
  "sample_files p =
     (if p = ''data/ok.json'' then
        Inr (JObj [(''result'', JFloat (Finite (21/2))), (''error'', JNull)])
      else if p = ''data/failed.json'' then
        Inr (JObj [(''result'', JFloat (Finite 42)), (''error'', JStr ''computation failed'')])
      else if p = ''data/nokey.json'' then Inr (JObj [(''other'', JFloat (Finite 1))])
      else if p = ''data/null.json'' then Inr (JObj [(''result'', JNull)])
      else if p = ''data/na.json'' then Inr (JObj [(''result'', JStr ''NA''), (''error'', JNull)])
      else if p = ''data/broken.json'' then Inl JSONDecodeError
      else if p = ''data/text.json'' then Inr (JObj [(''result'', JStr ''12.5'')])
      else Inl OSError)"

text \<open>
  The five values of the repository's own test, \<^verbatim>\<open>10.5, 15.2, 8.7, 12.1, 20.0\<close>, as the
  doubles that \<^verbatim>\<open>json.load\<close> reads them as (\<^verbatim>\<open>float.as_integer_ratio\<close> gives these
  fractions; the denominators are \<open>2^48\<close> and \<open>2^49\<close>).
\<close>

definition test_values :: "pyfloat list" where
  "test_values =
     [Finite (21/2),
      Finite (4278419646001971/281474976710656),
      Finite (2448832297382707/281474976710656),
      Finite (6811694436397875/562949953421312),
      Finite 20]"

text \<open>
  What CPython returns for the arguments that occur in the runs below: \<^verbatim>\<open>statistics.mean\<close>
  of the test values is \<^verbatim>\<open>13.299999999999999\<close> (the double \<open>7487234380503449 / 2^49\<close>) and
  their \<^verbatim>\<open>sum\<close> is \<^verbatim>\<open>66.5\<close>; mean and sum of \<^verbatim>\<open>10.5\<close> and \<^verbatim>\<open>12.5\<close> are \<^verbatim>\<open>11.5\<close>
  and \<^verbatim>\<open>23.0\<close>; \<^verbatim>\<open>float("12.5")\<close> is \<^verbatim>\<open>12.5\<close>; \<^verbatim>\<open>float(2**53 + 1)\<close> is \<open>2^53\<close>. The
  entries for other arguments are not used.
\<close>

definition sample_mean :: "pyfloat list \<Rightarrow> pyfloat" where
  "sample_mean xs =
     (if xs = test_values then Finite (7487234380503449/562949953421312)
      else if xs = [Finite (21/2), Finite (25/2)] then Finite (23/2)
      else NaN)"

definition sample_sum :: "pyfloat list \<Rightarrow> pyfloat" where
  "sample_sum xs =
     (if xs = test_values then Finite (133/2)
      else if xs = [Finite (21/2), Finite (25/2)] then Finite 23
      else NaN)"

definition sample_env :: env where
  "sample_env =
     \<lparr> glob_matches = (\<lambda>pat.
         if pat = ''data/*.json'' then
           [''data/ok.json'', ''data/failed.json'', ''data/nokey.json'', ''data/null.json'',
            ''data/na.json'', ''data/broken.json'', ''data/text.json'']
         else if pat = ''data/n*.json'' then
           [''data/nokey.json'', ''data/null.json'', ''data/na.json'']
         else if pat = ''data/*'' then [''data/sub'']
         else []),
       is_file = (\<lambda>p. p \<noteq> ''data/sub''),
       load_json = sample_files,
       cwd = ''/work'',
       float_of_str = (\<lambda>s. if s = ''12.5'' then Some (Finite (25/2)) else None),
       float_of_int = (\<lambda>i. if i = 2 ^ 53 + 1 then Finite (2 ^ 53) else NaN),
       mean_of = sample_mean,
       sum_of = sample_sum \<rparr>"

section \<open>Properties of the aggregator\<close>






lemma py_max_total: "vals \<noteq> [] \<Longrightarrow> \<exists>m. py_max vals = Inr m"
  by (cases vals) auto

lemma py_min_total: "vals \<noteq> [] \<Longrightarrow> \<exists>m. py_min vals = Inr m"
  by (cases vals) auto






section \<open>Properties of the record extractor\<close>

lemma extract_loop_append:
  "extract_loop E key (xs @ ys) acc =
     (case extract_loop E key xs acc of Inl e \<Rightarrow> Inl e | Inr acc' \<Rightarrow> extract_loop E key ys acc')"
  by (induction xs arbitrary: acc) (auto split: sum.splits)

text \<open>
  C2. A file that parses as an object with a top-level \<^verbatim>\<open>error\<close> key whose value is not
  \<^verbatim>\<open>null\<close> gives the not-available sentinel, whatever the object holds under the metric key.
  Its iteration of the extraction loop leaves \<^verbatim>\<open>values\<close> as it was and adds a plain
  \<^verbatim>\<open>"NA"\<close> entry to the file details, wherever the file stands among the discovered files.
\<close>

theorem error_field_excluded:
  assumes "load_json E f = Inr (JObj d)" and "map_of d ''error'' = Some e" and "e \<noteq> JNull"
  shows "load_result_from_file E f key = JStr ''NA'' \<and>
         extract_step E key f (vals, info) =
           Inr (vals, info @ [JObj [(''file'', JStr f), (''value'', JStr ''NA'')]]) \<and>
         extract_loop E key (pre @ f # post) acc =
           (case extract_loop E key pre acc of
              Inl x \<Rightarrow> Inl x
            | Inr (vs, fi) \<Rightarrow>
                extract_loop E key post
                  (vs, fi @ [JObj [(''file'', JStr f), (''value'', JStr ''NA'')]]))"
proof -
  have 1: "load_result_from_file E f key = JStr ''NA''"
    using assms by (simp add: load_result_from_file_def)
  have 2: "extract_step E key f acc' =
             Inr (fst acc', snd acc' @ [JObj [(''file'', JStr f), (''value'', JStr ''NA'')]])" for acc'
    using 1 by (simp add: extract_step_def)
  show ?thesis
    using 1 2 by (auto simp: extract_loop_append split: sum.splits)
qed

text \<open>The file \<^verbatim>\<open>data/failed.json\<close> holds the valid number 42 and an error message.\<close>

theorem error_field_excluded_witness:
  "load_json sample_env ''data/failed.json'' =
     Inr (JObj [(''result'', JFloat (Finite 42)), (''error'', JStr ''computation failed'')]) \<and>
   map_of [(''result'', JFloat (Finite 42)), (''error'', JStr ''computation failed'')] ''error''
     = Some (JStr ''computation failed'') \<and>
   JStr ''computation failed'' \<noteq> JNull \<and>
   py_float sample_env (JFloat (Finite 42)) = Inr (Finite 42) \<and>
   load_result_from_file sample_env ''data/failed.json'' ''result'' = JStr ''NA'' \<and>
   extract_loop sample_env ''result'' [''data/ok.json'', ''data/failed.json''] ([], []) =
     Inr ([Finite (21/2)],
          [JObj [(''file'', JStr ''data/ok.json''), (''value'', JFloat (Finite (21/2)))],
           JObj [(''file'', JStr ''data/failed.json''), (''value'', JStr ''NA'')]])"
proof -
  have h1: "load_json sample_env ''data/failed.json'' =
     Inr (JObj [(''result'', JFloat (Finite 42)), (''error'', JStr ''computation failed'')])"
    by (simp add: sample_env_def sample_files_def)
  have h2: "map_of [(''result'', JFloat (Finite 42)), (''error'', JStr ''computation failed'')] ''error''
     = Some (JStr ''computation failed'')" by simp
  have h3: "JStr ''computation failed'' \<noteq> JNull" by simp
  have ok: "extract_loop sample_env ''result'' [''data/ok.json''] ([], []) =
     Inr ([Finite (21/2)], [JObj [(''file'', JStr ''data/ok.json''), (''value'', JFloat (Finite (21/2)))]])"
    by (simp add: extract_step_def load_result_from_file_def sample_env_def sample_files_def)
  show ?thesis
    using h1 h2 h3 ok
      error_field_excluded [OF h1 h2 h3, of "''result''" "[]" "[]" "[''data/ok.json'']" "[]" "([], [])"]
    by simp
qed

text \<open>
  C10. A readable object file with no \<^verbatim>\<open>error\<close> field, or a \<^verbatim>\<open>null\<close> one, whose metric value
  is the string \<^verbatim>\<open>"NA"\<close>: the extractor returns the sentinel itself, the value is not added
  to \<^verbatim>\<open>values\<close>, and the detail entry is the plain \<^verbatim>\<open>"NA"\<close> entry without the
  \<^verbatim>\<open>non-numeric\<close> tag, the one a missing-key or an error-field file gets.
\<close>

theorem na_string_is_sentinel:
  assumes "load_json E f = Inr (JObj d)"
      and "map_of d ''error'' = None \<or> map_of d ''error'' = Some JNull"
      and "map_of d key = Some (JStr ''NA'')"
  shows "load_result_from_file E f key = JStr ''NA'' \<and>
         extract_step E key f (vals, info) =
           Inr (vals, info @ [JObj [(''file'', JStr f), (''value'', JStr ''NA'')]])"
  using assms by (auto simp: load_result_from_file_def extract_step_def)

text \<open>
  The sample file with the metric \<^verbatim>\<open>"NA"\<close>, next to the entries of the file without the key
  and of the file with an upstream error.
\<close>

theorem na_string_is_sentinel_witness:
  "load_json sample_env ''data/na.json'' = Inr (JObj [(''result'', JStr ''NA''), (''error'', JNull)]) \<and>
   map_of [(''result'', JStr ''NA''), (''error'', JNull)] ''error'' = Some JNull \<and>
   map_of [(''result'', JStr ''NA''), (''error'', JNull)] ''result'' = Some (JStr ''NA'') \<and>
   extract_step sample_env ''result'' ''data/na.json'' ([], []) =
     Inr ([], [JObj [(''file'', JStr ''data/na.json''), (''value'', JStr ''NA'')]]) \<and>
   extract_step sample_env ''result'' ''data/nokey.json'' ([], []) =
     Inr ([], [JObj [(''file'', JStr ''data/nokey.json''), (''value'', JStr ''NA'')]]) \<and>
   extract_step sample_env ''result'' ''data/failed.json'' ([], []) =
     Inr ([], [JObj [(''file'', JStr ''data/failed.json''), (''value'', JStr ''NA'')]])"
proof -
  have h1: "load_json sample_env ''data/na.json'' = Inr (JObj [(''result'', JStr ''NA''), (''error'', JNull)])"
    by (simp add: sample_env_def sample_files_def)
  have h2: "map_of [(''result'', JStr ''NA''), (''error'', JNull)] ''error'' = None \<or>
            map_of [(''result'', JStr ''NA''), (''error'', JNull)] ''error'' = Some JNull" by simp
  have h3: "map_of [(''result'', JStr ''NA''), (''error'', JNull)] ''result'' = Some (JStr ''NA'')" by simp
  have others: "extract_step sample_env ''result'' ''data/nokey.json'' ([], []) =
     Inr ([], [JObj [(''file'', JStr ''data/nokey.json''), (''value'', JStr ''NA'')]]) \<and>
   extract_step sample_env ''result'' ''data/failed.json'' ([], []) =
     Inr ([], [JObj [(''file'', JStr ''data/failed.json''), (''value'', JStr ''NA'')]])"
    by (simp add: extract_step_def load_result_from_file_def sample_env_def sample_files_def)
  show ?thesis
    using h1 h3 others na_string_is_sentinel [OF h1 h2 h3, of "[]" "[]"] by simp
qed

text \<open>
  C8, as stated, at concrete files. The claim asks for a reason tag in the detail entry that
  tells the four not-available kinds apart. The entries of a file without the metric key, of a
  file with an upstream error and of a file that is not JSON carry no tag at all: they consist
  of the file name and the value \<^verbatim>\<open>"NA"\<close> only.
\<close>

theorem reason_tag_counterexample:
  "extract_step sample_env ''result'' ''data/nokey.json'' ([], []) =
     Inr ([], [JObj [(''file'', JStr ''data/nokey.json''), (''value'', JStr ''NA'')]]) \<and>
   extract_step sample_env ''result'' ''data/failed.json'' ([], []) =
     Inr ([], [JObj [(''file'', JStr ''data/failed.json''), (''value'', JStr ''NA'')]]) \<and>
   extract_step sample_env ''result'' ''data/broken.json'' ([], []) =
     Inr ([], [JObj [(''file'', JStr ''data/broken.json''), (''value'', JStr ''NA'')]])"
  by (simp add: extract_step_def load_result_from_file_def sample_env_def sample_files_def)

text \<open>
  C8, amended. An object file that misses the metric key, or whose metric value makes
  \<^verbatim>\<open>float\<close> raise \<^verbatim>\<open>ValueError\<close> or \<^verbatim>\<open>TypeError\<close>, adds nothing to \<^verbatim>\<open>values\<close> and gets a
  detail entry with the value \<^verbatim>\<open>"NA"\<close>. The entry carries the tag \<^verbatim>\<open>non-numeric\<close> only when
  the file has no upstream error, the key is present and its value is not the string
  \<^verbatim>\<open>"NA"\<close>; otherwise it carries no tag.
\<close>

theorem not_available_detail:
  assumes "load_json E f = Inr (JObj d)"
      and "map_of d key = None \<or>
           (\<exists>v. map_of d key = Some v \<and>
                (py_float E v = Inl ValueError \<or>
                 py_float E v = Inl TypeError))"
  shows "extract_step E key f (vals, info) =
           Inr (vals,
                info @ [JObj ([(''file'', JStr f), (''value'', JStr ''NA'')] @
                   (if (\<exists>e. map_of d ''error'' = Some e \<and> e \<noteq> JNull) \<or> map_of d key = None \<or>
                       map_of d key = Some (JStr ''NA'')
                    then [] else [(''error'', JStr ''non-numeric'')]))])"
  using assms
  by (auto simp: load_result_from_file_def extract_step_def split: option.splits)

text \<open>A file whose metric is \<^verbatim>\<open>null\<close> (tagged) and a file without the key (not tagged).\<close>

theorem not_available_detail_witness:
  "load_json sample_env ''data/null.json'' = Inr (JObj [(''result'', JNull)]) \<and>
   map_of [(''result'', JNull)] ''result'' = Some JNull \<and>
   py_float sample_env JNull = Inl TypeError \<and>
   extract_step sample_env ''result'' ''data/null.json'' ([], []) =
     Inr ([], [JObj [(''file'', JStr ''data/null.json''), (''value'', JStr ''NA''),
                     (''error'', JStr ''non-numeric'')]]) \<and>
   load_json sample_env ''data/nokey.json'' = Inr (JObj [(''other'', JFloat (Finite 1))]) \<and>
   map_of [(''other'', JFloat (Finite 1))] ''result'' = None \<and>
   extract_step sample_env ''result'' ''data/nokey.json'' ([], []) =
     Inr ([], [JObj [(''file'', JStr ''data/nokey.json''), (''value'', JStr ''NA'')]])"
proof -
  have a1: "load_json sample_env ''data/null.json'' = Inr (JObj [(''result'', JNull)])"
    by (simp add: sample_env_def sample_files_def)
  have a2: "map_of [(''result'', JNull)] ''result'' = None \<or>
           (\<exists>v. map_of [(''result'', JNull)] ''result'' = Some v \<and>
                (py_float sample_env v = Inl ValueError \<or>
                 py_float sample_env v = Inl TypeError))" by simp
  have b1: "load_json sample_env ''data/nokey.json'' = Inr (JObj [(''other'', JFloat (Finite 1))])"
    by (simp add: sample_env_def sample_files_def)
  have b2: "map_of [(''other'', JFloat (Finite 1))] ''result'' = None \<or>
           (\<exists>v. map_of [(''other'', JFloat (Finite 1))] ''result'' = Some v \<and>
                (py_float sample_env v = Inl ValueError \<or>
                 py_float sample_env v = Inl TypeError))" by simp
  show ?thesis
    using a1 b1 not_available_detail [OF a1 a2, of "[]" "[]"] not_available_detail [OF b1 b2, of "[]" "[]"]
    by simp
qed

section \<open>Properties of the argument parser\<close>

lemma keys_dict_set:
  "map fst (dict_set d k v) = (if k \<in> set (map fst d) then map fst d else map fst d @ [k])"
proof (induction d)
  case Nil
  then show ?case by simp
next
  case (Cons kv d)
  then show ?case by (cases kv) (force split: if_splits)
qed

lemma keys_dict_append: "map fst (dict_append d k x) = map fst d"
  by (induction d) auto

lemma distinct_dict_set: "distinct (map fst d) \<Longrightarrow> distinct (map fst (dict_set d k v))"
  by (simp add: keys_dict_set)

lemma distinct_group_loop:
  "distinct (map fst g) \<Longrightarrow> distinct (map fst (group_loop argv g cur))"
proof (induction argv arbitrary: g cur)
  case Nil
  then show ?case by simp
next
  case (Cons arg rest)
  then show ?case
    by (auto simp: keys_dict_append distinct_dict_set split: option.splits)
qed

lemma distinct_parse_dynamic_args: "distinct (map fst (parse_dynamic_args argv))"
  by (simp add: parse_dynamic_args_def distinct_group_loop)

lemma map_of_dict_set: "map_of (dict_set d k v) = (map_of d)(k \<mapsto> v)"
  by (induction d) (auto simp: fun_eq_iff)

lemma map_of_dict_append_other: "k' \<noteq> k \<Longrightarrow> map_of (dict_append d k x) k' = map_of d k'"
  by (induction d) auto

lemma output_dir_process_other:
  "fst fv \<noteq> ''--output_dir'' \<Longrightarrow> output_dir (process_flag a fv) = output_dir a"
  by (simp add: process_flag_def Let_def)

lemma output_dir_process_flag:
  "output_dir (process_flag a (''--output_dir'', vs)) = first_or vs None Some"
  by (simp add: process_flag_def Let_def)

lemma output_dir_foldl_other:
  "''--output_dir'' \<notin> fst ` set d \<Longrightarrow> output_dir (foldl process_flag a d) = output_dir a"
  by (induction d arbitrary: a) (auto simp: output_dir_process_other)

lemma output_dir_foldl:
  "distinct (map fst d) \<Longrightarrow> map_of d ''--output_dir'' = Some vs \<Longrightarrow>
   output_dir (foldl process_flag a d) = first_or vs None Some"
proof (induction d arbitrary: a)
  case Nil
  then show ?case by simp
next
  case (Cons kv d)
  show ?case
  proof (cases "fst kv = ''--output_dir''")
    case True
    with Cons.prems have "kv = (''--output_dir'', vs)" and "''--output_dir'' \<notin> fst ` set d"
      by (auto simp: prod_eq_iff)
    then show ?thesis
      by (simp add: output_dir_foldl_other output_dir_process_flag)
  next
    case False
    with Cons show ?thesis by (cases kv) auto
  qed
qed

lemma parse_args_no_output_dir:
  assumes "map_of (parse_dynamic_args argv) ''--output_dir'' = None \<or>
           map_of (parse_dynamic_args argv) ''--output_dir'' = Some []"
  shows "parse_args argv = Inl (SystemExit ''Error: --output_dir is required'')"
proof -
  have "output_dir (foldl process_flag default_args (parse_dynamic_args argv)) = None"
  proof (cases "map_of (parse_dynamic_args argv) ''--output_dir''")
    case None
    then have "''--output_dir'' \<notin> fst ` set (parse_dynamic_args argv)"
      by (simp add: map_of_eq_None_iff)
    then show ?thesis by (simp add: output_dir_foldl_other default_args_def)
  next
    case (Some vs)
    with assms have "vs = []" by simp
    with Some show ?thesis
      using output_dir_foldl [OF distinct_parse_dynamic_args, of argv "[]" default_args]
      by (simp add: first_or_def)
  qed
  then show ?thesis by (simp add: parse_args_def)
qed

text \<open>
  The grouped arguments in terms of the argument vector: a flag that does not occur has no
  group, and a flag whose last occurrence is followed by the end of the vector or by another
  flag has the empty group.
\<close>

lemma group_loop_absent:
  "k \<notin> set argv \<Longrightarrow> k \<noteq> ''__positional__'' \<Longrightarrow> cur \<noteq> Some k \<Longrightarrow>
   map_of (group_loop argv g cur) k = map_of g k"
proof (induction argv arbitrary: g cur)
  case Nil
  then show ?case by simp
next
  case (Cons arg rest)
  then show ?case
    by (auto simp: map_of_dict_set map_of_dict_append_other split: option.splits)
qed

lemma group_loop_append:
  "\<exists>g'. group_loop (pre @ flag # post) g cur = group_loop post (dict_set g' flag []) (Some flag)"
  if "startswith flag ''--''"
  using that
proof (induction pre arbitrary: g cur)
  case Nil
  then show ?case by auto
next
  case (Cons arg pre)
  show ?case
    using Cons.IH [OF Cons.prems] by (simp split: option.splits)
qed

lemma group_loop_flag_no_value:
  assumes "startswith flag ''--''" and "flag \<notin> set post" and "post = [] \<or> startswith (hd post) ''--''"
  shows "map_of (group_loop post (dict_set g flag []) (Some flag)) flag = Some []"
proof (cases post)
  case Nil
  then show ?thesis by (simp add: map_of_dict_set)
next
  case (Cons p ps)
  with assms have p: "startswith p ''--''" "p \<noteq> flag" "flag \<notin> set ps" by auto
  have "flag \<noteq> ''__positional__''" using assms(1) by (auto simp: startswith_def)
  then show ?thesis
    using Cons p by (simp add: group_loop_absent map_of_dict_set)
qed

text \<open>
  C9. When the argument vector gives no output directory (the flag \<^verbatim>\<open>--output_dir\<close> does
  not occur, or its last occurrence is followed at once by the end of the vector or by another
  flag), \<open>parse_args\<close> raises \<^verbatim>\<open>SystemExit\<close> with a message, the process ends with the
  non-zero status 1, and the run has had no effect: no directory created, neither
  \<^verbatim>\<open>metrics.json\<close> nor \<^verbatim>\<open>cli.txt\<close> written.
\<close>

theorem missing_output_dir:
  assumes "''--output_dir'' \<notin> set argv \<or>
           (\<exists>pre post. argv = pre @ ''--output_dir'' # post \<and> ''--output_dir'' \<notin> set post \<and>
                        (post = [] \<or> startswith (hd post) ''--''))"
  shows "parse_args argv = Inl (SystemExit ''Error: --output_dir is required'') \<and>
         main E argv = (Inl (SystemExit ''Error: --output_dir is required''), []) \<and>
         exit_status (fst (main E argv)) = 1"
proof -
  have "map_of (parse_dynamic_args argv) ''--output_dir'' = None \<or>
        map_of (parse_dynamic_args argv) ''--output_dir'' = Some []"
    using assms
  proof
    assume "''--output_dir'' \<notin> set argv"
    then show ?thesis
      by (simp add: parse_dynamic_args_def group_loop_absent)
  next
    assume "\<exists>pre post. argv = pre @ ''--output_dir'' # post \<and> ''--output_dir'' \<notin> set post \<and>
                        (post = [] \<or> startswith (hd post) ''--'')"
    then obtain pre post where a: "argv = pre @ ''--output_dir'' # post"
      and b: "''--output_dir'' \<notin> set post" and c: "post = [] \<or> startswith (hd post) ''--''"
      by blast
    have s: "startswith ''--output_dir'' ''--''" by (simp add: startswith_def)
    obtain g' where "group_loop argv [] None =
        group_loop post (dict_set g' ''--output_dir'' []) (Some ''--output_dir'')"
      using group_loop_append [OF s, of pre post "[]" None] a by auto
    then show ?thesis
      using group_loop_flag_no_value [OF s b c, of g'] by (simp add: parse_dynamic_args_def)
  qed
  then have "parse_args argv = Inl (SystemExit ''Error: --output_dir is required'')"
    by (rule parse_args_no_output_dir)
  then show ?thesis by (simp add: main_def exit_status_def)
qed

text \<open>A vector without the flag, and one where the flag is followed by another flag.\<close>

theorem missing_output_dir_witness:
  "''--output_dir'' \<notin> set [''--input-pattern'', ''data/*.json'', ''--debug''] \<and>
   main sample_env [''--input-pattern'', ''data/*.json'', ''--debug''] =
     (Inl (SystemExit ''Error: --output_dir is required''), []) \<and>
   [''--input-pattern'', ''data/*.json'', ''--output_dir'', ''--debug''] =
     [''--input-pattern'', ''data/*.json''] @ ''--output_dir'' # [''--debug''] \<and>
   ''--output_dir'' \<notin> set [''--debug''] \<and> startswith (hd [''--debug'']) ''--'' \<and>
   main sample_env [''--input-pattern'', ''data/*.json'', ''--output_dir'', ''--debug''] =
     (Inl (SystemExit ''Error: --output_dir is required''), []) \<and>
   exit_status (fst (main sample_env [''--input-pattern'', ''data/*.json'', ''--output_dir'', ''--debug''])) = 1"
proof -
  have h1: "''--output_dir'' \<notin> set [''--input-pattern'', ''data/*.json'', ''--debug'']" by simp
  have h2: "[''--input-pattern'', ''data/*.json'', ''--output_dir'', ''--debug''] =
     [''--input-pattern'', ''data/*.json''] @ ''--output_dir'' # [''--debug''] \<and>
   ''--output_dir'' \<notin> set [''--debug''] \<and> ([''--debug''] = [] \<or> startswith (hd [''--debug'']) ''--'')"
    by (simp add: startswith_def)
  from h2 have h2': "\<exists>pre post. [''--input-pattern'', ''data/*.json'', ''--output_dir'', ''--debug''] = pre @ ''--output_dir'' # post \<and> ''--output_dir'' \<notin> set post \<and>
                        (post = [] \<or> startswith (hd post) ''--'')" by blast
  show ?thesis
    using h1 h2
      missing_output_dir [OF disjI1 [OF h1], of sample_env]
      missing_output_dir [OF disjI2 [OF h2'], of sample_env]
    by (simp add: exit_status_def)
qed

text \<open>
  C6. The claim: values of \<^verbatim>\<open>--extra\<close> accumulate over repeated occurrences. On the code,
  \<open>parse_dynamic_args\<close> empties the group of a flag each time the flag occurs again, so
  \<^verbatim>\<open>--extra a --extra b\<close> leaves only \<^verbatim>\<open>b\<close>: the value of the first occurrence is lost
  before \<^verbatim>\<open>args.extra.extend(values)\<close> runs.
\<close>

theorem repeated_extra_keeps_last:
  "parse_args [''--output_dir'', ''out'', ''--extra'', ''a'', ''--extra'', ''b''] =
     Inr (default_args\<lparr>output_dir := Some ''out'', extra := [''b'']\<rparr>)"
  by (simp add: parse_args_def parse_dynamic_args_def startswith_def process_flag_def
      first_or_def default_args_def dict_keys_def)

text \<open>
  C7. The claim: an unrecognized flag is stored under its name without the leading dashes and
  with underscores for hyphens. On the code, that name is computed (\<open>flag_name\<close>) but the
  values are stored under the flag token as it was written: \<^verbatim>\<open>--foo-bar\<close> is the key, and
  nothing is stored under \<^verbatim>\<open>foo_bar\<close>.
\<close>

theorem unknown_flag_key_verbatim:
  "parse_args [''--output_dir'', ''out'', ''--foo-bar'', ''x''] =
     Inr (default_args\<lparr>output_dir := Some ''out'', dynamic_args := [(''--foo-bar'', [''x''])]\<rparr>) \<and>
   flag_name ''--foo-bar'' = ''foo_bar'' \<and>
   map_of [(''--foo-bar'', [''x''])] ''foo_bar'' = None"
  by (simp add: parse_args_def parse_dynamic_args_def startswith_def process_flag_def
      first_or_def default_args_def dict_keys_def flag_name_def)

section \<open>Properties of the result writer\<close>

lemma dict_set_fresh: "k \<notin> set (map fst d) \<Longrightarrow> dict_set d k v = d @ [(k, v)]"
  by (induction d) auto

lemma dict_update_fresh:
  "distinct (map fst e) \<Longrightarrow> set (map fst e) \<inter> set (map fst d) = {} \<Longrightarrow> dict_update d e = d @ e"
  unfolding dict_update_def
proof (induction e arbitrary: d)
  case Nil
  then show ?case by simp
next
  case (Cons kv e)
  obtain k v where kv: "kv = (k, v)" by (cases kv)
  have "foldl (\<lambda>acc (k, v). dict_set acc k v) (d @ [(k, v)]) e = (d @ [(k, v)]) @ e"
    using Cons.prems kv by (intro Cons.IH) auto
  then show ?case using Cons.prems kv by (simp add: dict_set_fresh)
qed

text \<open>A string that ends in s equals a given string only if that one ends in s.\<close>

lemma append_neq_Cons:
  "\<not> (length s \<le> length (c # cs) \<and> drop (length (c # cs) - length s) (c # cs) = s) \<Longrightarrow>
   (p @ s = c # cs) = False"
  by (metis append_eq_conv_conj length_append add_diff_cancel_left' le_add2 add.commute)

lemma Cons_neq_append:
  "\<not> (length s \<le> length (c # cs) \<and> drop (length (c # cs) - length s) (c # cs) = s) \<Longrightarrow>
   (c # cs = p @ s) = False"
  using append_neq_Cons [of s c cs p] by auto

lemma inj_on_rename_key: "inj_on (rename_key p) (set result_keys)"
  unfolding inj_on_def
  by (simp add: result_keys_def rename_key_def unprefixed_keys_def append_neq_Cons Cons_neq_append)

lemma add_prefix_foldl:
  "distinct (map fst acc @ map (rename_key p) (map fst d)) \<Longrightarrow>
   foldl (\<lambda>prefixed_result (k, v).
              if k \<notin> set unprefixed_keys
              then dict_set prefixed_result (p @ ''_'' @ k) v
              else dict_set prefixed_result k v) acc d
   = acc @ map (\<lambda>(k, v). (rename_key p k, v)) d"
proof (induction d arbitrary: acc)
  case Nil
  then show ?case by simp
next
  case (Cons kv d)
  obtain k v where kv: "kv = (k, v)" by (cases kv)
  have fresh: "rename_key p k \<notin> set (map fst acc)"
    using Cons.prems kv by auto
  have step: "(if k \<notin> set unprefixed_keys then dict_set acc (p @ ''_'' @ k) v else dict_set acc k v)
               = acc @ [(rename_key p k, v)]"
    using dict_set_fresh [OF fresh, of v] by (auto simp: rename_key_def unprefixed_keys_def)
  have "distinct (map fst (acc @ [(rename_key p k, v)]) @ map (rename_key p) (map fst d))"
    using Cons.prems kv by auto
  from Cons.IH [OF this] show ?case
    using kv step by simp
qed

lemma add_prefix_map:
  "distinct (map (rename_key p) (map fst d)) \<Longrightarrow>
   add_prefix p d = map (\<lambda>(k, v). (rename_key p k, v)) d"
  using add_prefix_foldl [of "[]" p d] by (simp add: add_prefix_def)

lemma aggregate_keys:
  assumes "aggregate_results E vals agg = Inr aggregated"
  shows "distinct (map fst aggregated) \<and>
         set (map fst aggregated) \<subseteq> {''avg'', ''max'', ''min'', ''sum'', ''count'', ''values'', ''error''}"
proof (cases "vals = []")
  case True
  with assms show ?thesis by (auto simp: aggregate_results_def)
next
  case False
  then obtain mx mn where "py_max vals = Inr mx" "py_min vals = Inr mn"
    using py_max_total py_min_total by blast
  with assms False show ?thesis
    by (auto simp: aggregate_results_def set_stat_def py_mean_def split: if_splits)
qed


lemma merge_result_append:
  assumes "aggregate_results E vals agg = Inr aggregated"
  shows "merge_result a info aggregated =
          [(''aggregation_type'', JStr (aggregation a)),
           (''metric_key'', JStr (metric_key a)),
           (''input_pattern'', JStr (input_pattern a)),
           (''files_processed'', JInt (int (length info))),
           (''files_details'', JArr info)] @ aggregated"
  unfolding merge_result_def
  using aggregate_keys [OF assms] by (intro dict_update_fresh) auto

lemma merge_result_keys:
  assumes "aggregate_results E vals agg = Inr aggregated"
  shows "distinct (map fst (merge_result a info aggregated)) \<and>
         set (map fst (merge_result a info aggregated)) \<subseteq> set result_keys"
  using aggregate_keys [OF assms]
  by (auto simp: merge_result_append [OF assms] result_keys_def)

lemma map_fst_rename:
  "map fst (map (\<lambda>(k, v). (rename_key p k, v)) r) = map (rename_key p) (map fst r)"
  by (induction r) auto

lemma distinct_renamed_keys:
  assumes "aggregate_results E vals agg = Inr aggregated"
  shows "distinct (map (rename_key p) (map fst (merge_result a info aggregated)))"
proof -
  let ?r = "merge_result a info aggregated"
  have keys: "distinct (map fst ?r)" "set (map fst ?r) \<subseteq> set result_keys"
    using merge_result_keys [OF assms] by auto
  have inj: "inj_on (rename_key p) (set (map fst ?r))"
    using inj_on_rename_key keys(2) by (rule inj_on_subset)
  show ?thesis
    by (rule distinct_map [THEN iffD2, OF conjI [OF keys(1) inj]])
qed

lemma add_prefix_merge_result:
  assumes "aggregate_results E vals agg = Inr aggregated"
  shows "add_prefix p (merge_result a info aggregated) =
           map (\<lambda>(k, v). (rename_key p k, v)) (merge_result a info aggregated)"
  by (rule add_prefix_map [OF distinct_renamed_keys [OF assms]])

text \<open>
  C5. With a non-empty key prefix \<open>p\<close>, the result that is written is the merged result with
  every key renamed as the specification says: the keys \<^verbatim>\<open>files_details\<close>,
  \<^verbatim>\<open>input_pattern\<close>, \<^verbatim>\<open>metric_key\<close> and \<^verbatim>\<open>aggregation_type\<close> unchanged, every other key
  \<open>k\<close> turned into \<open>p_k\<close>, each with the value it had, in the same order. No two keys
  fall together, before or after the renaming.
\<close>

theorem prefix_renames_keys:
  assumes "prefix a \<noteq> []" and "aggregate_results E vals agg = Inr aggregated"
  shows "final_result a (merge_result a info aggregated) =
           map (\<lambda>(k, v). (rename_key (prefix a) k, v)) (merge_result a info aggregated) \<and>
         distinct (map fst (merge_result a info aggregated)) \<and>
         distinct (map fst (final_result a (merge_result a info aggregated)))"
proof -
  let ?r = "merge_result a info aggregated"
  have eq: "final_result a ?r = map (\<lambda>(k, v). (rename_key (prefix a) k, v)) ?r"
    using assms(1) add_prefix_merge_result [OF assms(2)] by (simp add: final_result_def)
  have d2: "distinct (map fst (final_result a ?r))"
    unfolding eq map_fst_rename by (rule distinct_renamed_keys [OF assms(2)])
  from eq merge_result_keys [OF assms(2)] d2 show ?thesis by blast
qed

text \<open>The mode \<^verbatim>\<open>avg\<close> with the prefix \<^verbatim>\<open>test\<close>, as in the repository's parameter test.\<close>

theorem prefix_renames_keys_witness:
  "prefix (default_args\<lparr>aggregation := ''avg'', prefix := ''test''\<rparr>) \<noteq> [] \<and>
   aggregate_results sample_env [Finite (21/2), Finite (25/2)] ''avg'' =
     Inr [(''avg'', JFloat (Finite (23/2))), (''count'', JInt 2), (''values'', JArr [JFloat (Finite (21/2)), JFloat (Finite (25/2))])] \<and>
   final_result (default_args\<lparr>aggregation := ''avg'', prefix := ''test''\<rparr>)
     (merge_result (default_args\<lparr>aggregation := ''avg'', prefix := ''test''\<rparr>) []
        [(''avg'', JFloat (Finite (23/2))), (''count'', JInt 2), (''values'', JArr [JFloat (Finite (21/2)), JFloat (Finite (25/2))])]) =
     [(''aggregation_type'', JStr ''avg''),
      (''metric_key'', JStr ''result''),
      (''input_pattern'', JStr ''**/*_data.json''),
      (''test_files_processed'', JInt 0),
      (''files_details'', JArr []),
      (''test_avg'', JFloat (Finite (23/2))),
      (''test_count'', JInt 2),
      (''test_values'', JArr [JFloat (Finite (21/2)), JFloat (Finite (25/2))])]"
proof -
  have h1: "prefix (default_args\<lparr>aggregation := ''avg'', prefix := ''test''\<rparr>) \<noteq> []" by simp
  have h2: "aggregate_results sample_env [Finite (21/2), Finite (25/2)] ''avg'' =
     Inr [(''avg'', JFloat (Finite (23/2))), (''count'', JInt 2), (''values'', JArr [JFloat (Finite (21/2)), JFloat (Finite (25/2))])]"
    by (simp add: aggregate_results_def set_stat_def py_mean_def sample_env_def sample_mean_def
        test_values_def)
  have m: "merge_result (default_args\<lparr>aggregation := ''avg'', prefix := ''test''\<rparr>) []
        [(''avg'', JFloat (Finite (23/2))), (''count'', JInt 2), (''values'', JArr [JFloat (Finite (21/2)), JFloat (Finite (25/2))])] =
     [(''aggregation_type'', JStr ''avg''),
      (''metric_key'', JStr ''result''),
      (''input_pattern'', JStr ''**/*_data.json''),
      (''files_processed'', JInt 0),
      (''files_details'', JArr []),
      (''avg'', JFloat (Finite (23/2))),
      (''count'', JInt 2),
      (''values'', JArr [JFloat (Finite (21/2)), JFloat (Finite (25/2))])]"
    by (simp add: merge_result_def dict_update_def default_args_def)
  show ?thesis
    using h1 h2 prefix_renames_keys [OF h1 h2, of "[]"]
    by (simp add: m rename_key_def)
qed

section \<open>Properties of the run\<close>

lemma parse_args_output_dir:
  "parse_args argv = Inr a \<Longrightarrow> \<exists>out. output_dir a = Some out \<and> out \<noteq> []"
  by (auto simp: parse_args_def Let_def split: if_splits option.splits)

text \<open>Runs on the sample environment.\<close>

lemma parse_sample_none:
  "parse_args [''--input-pattern'', ''data/*'', ''--output_dir'', ''out''] =
     Inr (default_args\<lparr>input_pattern := ''data/*'', output_dir := Some ''out''\<rparr>)"
  by (simp add: parse_args_def parse_dynamic_args_def startswith_def process_flag_def
      first_or_def default_args_def dict_keys_def)

lemma parse_sample_n:
  "parse_args [''--input-pattern'', ''data/n*.json'', ''--output_dir'', ''out''] =
     Inr (default_args\<lparr>input_pattern := ''data/n*.json'', output_dir := Some ''out''\<rparr>)"
  by (simp add: parse_args_def parse_dynamic_args_def startswith_def process_flag_def
      first_or_def default_args_def dict_keys_def)

lemma parse_sample_n_prefix:
  "parse_args [''--input-pattern'', ''data/n*.json'', ''--output_dir'', ''out'', ''--prefix'', ''p''] =
     Inr (default_args\<lparr>input_pattern := ''data/n*.json'', output_dir := Some ''out'', prefix := ''p''\<rparr>)"
  by (simp add: parse_args_def parse_dynamic_args_def startswith_def process_flag_def
      first_or_def default_args_def dict_keys_def)

lemma sample_n_files:
  "find_data_files sample_env ''data/n*.json'' = [''data/nokey.json'', ''data/null.json'', ''data/na.json'']"
  by (simp add: find_data_files_def sample_env_def)

lemma sample_n_loop:
  "extract_loop sample_env ''result'' [''data/nokey.json'', ''data/null.json'', ''data/na.json''] ([], []) =
     Inr ([], [JObj [(''file'', JStr ''data/nokey.json''), (''value'', JStr ''NA'')],
               JObj [(''file'', JStr ''data/null.json''), (''value'', JStr ''NA''),
                     (''error'', JStr ''non-numeric'')],
               JObj [(''file'', JStr ''data/na.json''), (''value'', JStr ''NA'')]])"
  by (simp add: extract_step_def load_result_from_file_def sample_env_def sample_files_def Let_def)

text \<open>
  C3. When the arguments parse and discovery finds no file, \<open>main\<close> returns 1 without an
  exception, after creating the output directory, writing \<^verbatim>\<open>cli.txt\<close> and writing a
  \<^verbatim>\<open>metrics.json\<close> whose keys are exactly \<^verbatim>\<open>error\<close> (a message that ends with the
  pattern used), \<^verbatim>\<open>pattern_used\<close> and \<^verbatim>\<open>search_directory\<close>; the process exits with 1.
\<close>

theorem no_files_run:
  assumes "parse_args argv = Inr a" and "find_data_files E (input_pattern a) = []"
  shows "\<exists>out. output_dir a = Some out \<and>
           main E argv =
             (Inr 1,
              [Mkdir out, WriteCli out argv a,
               WriteJson out ''metrics.json''
                 (JObj [(''error'', JStr (''No data files found with pattern: '' @ input_pattern a)),
                        (''pattern_used'', JStr (input_pattern a)),
                        (''search_directory'', JStr (cwd E))])]) \<and>
           exit_status (fst (main E argv)) = 1 \<and>
           written_json (snd (main E argv)) out ''metrics.json'' =
             Some (JObj [(''error'', JStr (''No data files found with pattern: '' @ input_pattern a)),
                        (''pattern_used'', JStr (input_pattern a)),
                        (''search_directory'', JStr (cwd E))])"
proof -
  from parse_args_output_dir [OF assms(1)] obtain out where out: "output_dir a = Some out"
    by blast
  show ?thesis
    using assms out by (simp add: main_def exit_status_def)
qed

text \<open>The pattern \<^verbatim>\<open>data/*\<close> matches a directory only, which is not a regular file.\<close>

theorem no_files_run_witness:
  "parse_args [''--input-pattern'', ''data/*'', ''--output_dir'', ''out''] =
     Inr (default_args\<lparr>input_pattern := ''data/*'', output_dir := Some ''out''\<rparr>) \<and>
   glob_matches sample_env ''data/*'' = [''data/sub''] \<and>
   find_data_files sample_env ''data/*'' = [] \<and>
   exit_status (fst (main sample_env [''--input-pattern'', ''data/*'', ''--output_dir'', ''out''])) = 1 \<and>
   written_json (snd (main sample_env [''--input-pattern'', ''data/*'', ''--output_dir'', ''out'']))
       ''out'' ''metrics.json'' =
     Some (JObj [(''error'', JStr ''No data files found with pattern: data/*''),
                 (''pattern_used'', JStr ''data/*''),
                 (''search_directory'', JStr ''/work'')])"
proof -
  let ?a = "default_args\<lparr>input_pattern := ''data/*'', output_dir := Some ''out''\<rparr>"
  have g: "glob_matches sample_env ''data/*'' = [''data/sub'']"
    by (simp add: sample_env_def)
  have h2: "find_data_files sample_env (input_pattern ?a) = []"
    by (simp add: find_data_files_def sample_env_def)
  have c: "cwd sample_env = ''/work''" by (simp add: sample_env_def)
  show ?thesis
    using parse_sample_none g h2 no_files_run [OF parse_sample_none h2]
    by (simp add: c exit_status_def)
qed

text \<open>
  C4, as stated, at a concrete run. Three files are discovered and none gives a value. The
  run returns 0, but \<^verbatim>\<open>metrics.json\<close> is not the one-key object of the claim: it holds
  the five metadata keys as well, and with a key prefix \<^verbatim>\<open>p\<close> the message is under
  \<^verbatim>\<open>p_error\<close>, so that there is no key \<^verbatim>\<open>error\<close> at all.
\<close>

theorem only_error_counterexample:
  "find_data_files sample_env ''data/n*.json'' \<noteq> [] \<and>
   main sample_env [''--input-pattern'', ''data/n*.json'', ''--output_dir'', ''out''] =
     (Inr 0,
      [Mkdir ''out'',
       WriteCli ''out'' [''--input-pattern'', ''data/n*.json'', ''--output_dir'', ''out'']
         (default_args\<lparr>input_pattern := ''data/n*.json'', output_dir := Some ''out''\<rparr>),
       WriteJson ''out'' ''metrics.json''
         (JObj [(''aggregation_type'', JStr ''all''),
                (''metric_key'', JStr ''result''),
                (''input_pattern'', JStr ''data/n*.json''),
                (''files_processed'', JInt 3),
                (''files_details'',
                 JArr [JObj [(''file'', JStr ''data/nokey.json''), (''value'', JStr ''NA'')],
                       JObj [(''file'', JStr ''data/null.json''), (''value'', JStr ''NA''),
                             (''error'', JStr ''non-numeric'')],
                       JObj [(''file'', JStr ''data/na.json''), (''value'', JStr ''NA'')]]),
                (''error'', JStr ''No valid values found'')])]) \<and>
   written_json
     (snd (main sample_env [''--input-pattern'', ''data/n*.json'', ''--output_dir'', ''out'']))
     ''out'' ''metrics.json'' \<noteq> Some (JObj [(''error'', JStr ''No valid values found'')]) \<and>
   written_json
     (snd (main sample_env
            [''--input-pattern'', ''data/n*.json'', ''--output_dir'', ''out'', ''--prefix'', ''p'']))
     ''out'' ''metrics.json'' =
     Some (JObj [(''aggregation_type'', JStr ''all''),
                (''metric_key'', JStr ''result''),
                (''input_pattern'', JStr ''data/n*.json''),
                (''p_files_processed'', JInt 3),
                (''files_details'',
                 JArr [JObj [(''file'', JStr ''data/nokey.json''), (''value'', JStr ''NA'')],
                       JObj [(''file'', JStr ''data/null.json''), (''value'', JStr ''NA''),
                             (''error'', JStr ''non-numeric'')],
                       JObj [(''file'', JStr ''data/na.json''), (''value'', JStr ''NA'')]]),
                (''p_error'', JStr ''No valid values found'')])"
  by (simp add: main_def parse_sample_n parse_sample_n_prefix sample_n_files sample_n_loop
      aggregate_results_def merge_result_def dict_update_def final_result_def add_prefix_def
      unprefixed_keys_def default_args_def Let_def
      del: extract_loop.simps)

text \<open>
  C4, amended. When the arguments parse, at least one file is discovered and the extraction
  loop ends with an empty list of values, the run returns 0 (exit status 0) and
  \<^verbatim>\<open>metrics.json\<close> holds exactly six keys: \<^verbatim>\<open>aggregation_type\<close>, \<^verbatim>\<open>metric_key\<close>,
  \<^verbatim>\<open>input_pattern\<close>, \<^verbatim>\<open>files_processed\<close>, \<^verbatim>\<open>files_details\<close> and \<^verbatim>\<open>error\<close> with the
  message \<^verbatim>\<open>No valid values found\<close>, where \<^verbatim>\<open>files_processed\<close> and \<^verbatim>\<open>error\<close> carry the
  key prefix when one is set. None of \<^verbatim>\<open>avg\<close>, \<^verbatim>\<open>max\<close>, \<^verbatim>\<open>min\<close>, \<^verbatim>\<open>sum\<close>,
  \<^verbatim>\<open>count\<close>, \<^verbatim>\<open>values\<close> is among them.
\<close>

theorem all_not_available_run:
  assumes "parse_args argv = Inr a"
      and "find_data_files E (input_pattern a) \<noteq> []"
      and "extract_loop E (metric_key a) (find_data_files E (input_pattern a)) ([], []) = Inr ([], info)"
  shows "\<exists>out. output_dir a = Some out \<and>
           fst (main E argv) = Inr 0 \<and>
           exit_status (fst (main E argv)) = 0 \<and>
           written_json (snd (main E argv)) out ''metrics.json'' =
             Some (JObj
               [(''aggregation_type'', JStr (aggregation a)),
                (''metric_key'', JStr (metric_key a)),
                (''input_pattern'', JStr (input_pattern a)),
                (if prefix a = [] then ''files_processed'' else prefix a @ ''_files_processed'',
                 JInt (int (length info))),
                (''files_details'', JArr info),
                (if prefix a = [] then ''error'' else prefix a @ ''_error'',
                 JStr ''No valid values found'')])"
proof -
  from parse_args_output_dir [OF assms(1)] obtain out where out: "output_dir a = Some out"
    by blast
  have agg: "aggregate_results E [] (aggregation a) = Inr [(''error'', JStr ''No valid values found'')]"
    by (simp add: aggregate_results_def)
  have m: "merge_result a info [(''error'', JStr ''No valid values found'')] =
      [(''aggregation_type'', JStr (aggregation a)),
       (''metric_key'', JStr (metric_key a)),
       (''input_pattern'', JStr (input_pattern a)),
       (''files_processed'', JInt (int (length info))),
       (''files_details'', JArr info),
       (''error'', JStr ''No valid values found'')]"
    by (simp add: merge_result_def dict_update_def)
  have f: "final_result a (merge_result a info [(''error'', JStr ''No valid values found'')]) =
       [(''aggregation_type'', JStr (aggregation a)),
                (''metric_key'', JStr (metric_key a)),
                (''input_pattern'', JStr (input_pattern a)),
                (if prefix a = [] then ''files_processed'' else prefix a @ ''_files_processed'',
                 JInt (int (length info))),
                (''files_details'', JArr info),
                (if prefix a = [] then ''error'' else prefix a @ ''_error'',
                 JStr ''No valid values found'')]"
  proof (cases "prefix a = []")
    case True
    then show ?thesis by (simp add: final_result_def m)
  next
    case False
    then show ?thesis
      using add_prefix_merge_result [OF agg, of "prefix a" a info]
      by (simp add: final_result_def m rename_key_def)
  qed
  have "main E argv =
     (Inr 0, [Mkdir out, WriteCli out argv a,
              WriteJson out ''metrics.json''
                (JObj (final_result a (merge_result a info [(''error'', JStr ''No valid values found'')])))])"
    using assms out agg by (simp add: main_def)
  then show ?thesis
    using out by (simp add: f exit_status_def)
qed

text \<open>The three sample files without a value, with the key prefix \<^verbatim>\<open>p\<close>.\<close>

theorem all_not_available_run_witness:
  "parse_args [''--input-pattern'', ''data/n*.json'', ''--output_dir'', ''out'', ''--prefix'', ''p''] =
     Inr (default_args\<lparr>input_pattern := ''data/n*.json'', output_dir := Some ''out'',
                        prefix := ''p''\<rparr>) \<and>
   find_data_files sample_env ''data/n*.json'' =
     [''data/nokey.json'', ''data/null.json'', ''data/na.json''] \<and>
   extract_loop sample_env ''result'' [''data/nokey.json'', ''data/null.json'', ''data/na.json'']
       ([], []) =
     Inr ([], [JObj [(''file'', JStr ''data/nokey.json''), (''value'', JStr ''NA'')],
               JObj [(''file'', JStr ''data/null.json''), (''value'', JStr ''NA''),
                     (''error'', JStr ''non-numeric'')],
               JObj [(''file'', JStr ''data/na.json''), (''value'', JStr ''NA'')]]) \<and>
   exit_status (fst (main sample_env
      [''--input-pattern'', ''data/n*.json'', ''--output_dir'', ''out'', ''--prefix'', ''p''])) = 0 \<and>
   written_json
     (snd (main sample_env
            [''--input-pattern'', ''data/n*.json'', ''--output_dir'', ''out'', ''--prefix'', ''p'']))
     ''out'' ''metrics.json'' =
     Some (JObj [(''aggregation_type'', JStr ''all''),
                (''metric_key'', JStr ''result''),
                (''input_pattern'', JStr ''data/n*.json''),
                (''p_files_processed'', JInt 3),
                (''files_details'',
                 JArr [JObj [(''file'', JStr ''data/nokey.json''), (''value'', JStr ''NA'')],
                       JObj [(''file'', JStr ''data/null.json''), (''value'', JStr ''NA''),
                             (''error'', JStr ''non-numeric'')],
                       JObj [(''file'', JStr ''data/na.json''), (''value'', JStr ''NA'')]]),
                (''p_error'', JStr ''No valid values found'')])"
proof -
  let ?a = "default_args\<lparr>input_pattern := ''data/n*.json'', output_dir := Some ''out'',
                          prefix := ''p''\<rparr>"
  let ?info = "[JObj [(''file'', JStr ''data/nokey.json''), (''value'', JStr ''NA'')],
               JObj [(''file'', JStr ''data/null.json''), (''value'', JStr ''NA''),
                     (''error'', JStr ''non-numeric'')],
               JObj [(''file'', JStr ''data/na.json''), (''value'', JStr ''NA'')]]"
  have h2: "find_data_files sample_env (input_pattern ?a) \<noteq> []"
    by (simp add: sample_n_files)
  have h3: "extract_loop sample_env (metric_key ?a) (find_data_files sample_env (input_pattern ?a))
              ([], []) = Inr ([], ?info)"
    by (simp add: sample_n_files sample_n_loop default_args_def del: extract_loop.simps)
  show ?thesis
    using parse_sample_n_prefix sample_n_files sample_n_loop
      all_not_available_run [OF parse_sample_n_prefix h2 h3]
    by (simp add: default_args_def exit_status_def del: extract_loop.simps)
qed

end
